theory Spec2Isabelle
  imports Main "HOL-Library.AList" "HOL-Library.Char_ord" "HOL-Library.List_Lexorder"
begin

section \<open>The cron controller: data model\<close>

text \<open>
  The controller (package \<open>controller\<close>, type \<open>CronReconciler\<close>) and the API types
  (package \<open>v1alpha1\<close>) are embedded as pure functions over an explicit world: the
  object store behind \<open>r.client\<close> and \<open>r.reader\<close>, and the events given to
  \<open>r.recorder\<close>. A \<open>*v1alpha1.Cron\<close> that a Go function mutates through its pointer is
  passed in and returned, also when the function returns an error. Log lines are left out.

  A \<open>time.Time\<close> is an instant in nanoseconds since the Unix epoch; \<open>Unix()\<close> is the
  number of whole seconds. A pointer to a time (\<open>*metav1.Time\<close>) is an option.
\<close>

type_synonym time = int
type_synonym duration = int
type_synonym UID = string
type_synonym NamespacedName = "string \<times> string"

definition Unix :: "time \<Rightarrow> int" where
  "Unix t = t div 1000000000"

text \<open>\<open>metav1.Time.Equal\<close> and \<open>metav1.Time.Before\<close> on pointers: two nil pointers are
  equal, a nil and a non-nil one are neither equal nor ordered.\<close>

fun Time_Equal :: "time option \<Rightarrow> time option \<Rightarrow> bool" where
  "Time_Equal None None = True"
| "Time_Equal (Some t) (Some u) = (t = u)"
| "Time_Equal _ _ = False"

fun Time_Before :: "time option \<Rightarrow> time option \<Rightarrow> bool" where
  "Time_Before (Some t) (Some u) = (t < u)"
| "Time_Before _ _ = False"

text \<open>\<open>ConcurrencyPolicy\<close> and \<open>JobConditionType\<close> are string types with named constants.\<close>

type_synonym ConcurrencyPolicy = string
type_synonym JobConditionType = string

abbreviation ConcurrentPolicyAllow :: ConcurrencyPolicy where
  "ConcurrentPolicyAllow \<equiv> ''Allow''"
abbreviation ConcurrentPolicyForbid :: ConcurrencyPolicy where
  "ConcurrentPolicyForbid \<equiv> ''Forbid''"
abbreviation ConcurrentPolicyReplace :: ConcurrencyPolicy where
  "ConcurrentPolicyReplace \<equiv> ''Replace''"

abbreviation JobCreated :: JobConditionType where "JobCreated \<equiv> ''Created''"
abbreviation JobRunning :: JobConditionType where "JobRunning \<equiv> ''Running''"
abbreviation JobRestarting :: JobConditionType where "JobRestarting \<equiv> ''Restarting''"
abbreviation JobSucceeded :: JobConditionType where "JobSucceeded \<equiv> ''Succeeded''"
abbreviation JobFailed :: JobConditionType where "JobFailed \<equiv> ''Failed''"

text \<open>\<open>corev1.ObjectReference\<close> and \<open>corev1.TypedLocalObjectReference\<close>, the fields the
  controller reads or writes.\<close>

record ObjectReference =
  ref_Kind :: string
  ref_Namespace :: string
  ref_Name :: string
  ref_UID :: UID
  ref_APIVersion :: string

record TypedLocalObjectReference =
  obj_APIGroup :: "string option"
  obj_Kind :: string
  obj_Name :: string

record CronHistory =
  h_UID :: UID
  h_Object :: TypedLocalObjectReference
  h_Status :: JobConditionType
  h_Created :: "time option"
  h_Finished :: "time option"

record JobCondition =
  cond_Type :: JobConditionType
  cond_Status :: string
  cond_LastTransitionTime :: time

text \<open>A workload (\<open>client.Object\<close>): its metadata and the conditions of its status.
  In the cron's spec, \<open>HistoryLimit\<close> is an optional integer: the controller compares it
  with a length and defaults it to \<open>math.MaxInt\<close>.\<close>

record Workload =
  w_Kind :: string
  w_APIVersion :: string
  w_Namespace :: string
  w_Name :: string
  w_GenerateName :: string
  w_UID :: UID
  w_CreationTimestamp :: time
  w_Labels :: "(string \<times> string) list option"
  w_OwnerReferences :: "ObjectReference list"
  w_Conditions :: "JobCondition list"

record CronTemplateSpec =
  t_APIVersion :: string
  t_Kind :: string
  t_Workload :: "Workload option"

record CronSpec =
  Schedule :: string
  Template :: CronTemplateSpec
  ConcurrencyPolicy :: ConcurrencyPolicy
  Suspend :: "bool option"
  Deadline :: "time option"
  HistoryLimit :: "int option"

record CronStatus =
  Active :: "ObjectReference list"
  History :: "CronHistory list"
  LastScheduleTime :: "time option"

record Cron =
  c_Namespace :: string
  c_Name :: string
  c_UID :: UID
  c_CreationTimestamp :: time
  c_DeletionTimestamp :: "time option"
  Spec :: CronSpec
  Status :: CronStatus

text \<open>Errors are values. \<open>NotFound\<close> and \<open>AlreadyExists\<close> are the API status errors that
  \<open>apierrors.IsNotFound\<close> and \<open>apierrors.IsAlreadyExists\<close> recognise; \<open>Panic\<close> is a Go
  run-time panic (nil dereference, slice bounds).\<close>

datatype error =
    NotFound
  | AlreadyExists
  | Invalid
  | APIError string
  | HelperError string
  | Errorf string error
  | Panic string

definition IsNotFound :: "error \<Rightarrow> bool" where
  "IsNotFound e = (e = NotFound)"

definition IsAlreadyExists :: "error \<Rightarrow> bool" where
  "IsAlreadyExists e = (e = AlreadyExists)"

datatype Event = Event string string

abbreviation EventTypeNormal :: string where "EventTypeNormal \<equiv> ''Normal''"
abbreviation EventTypeWarning :: string where "EventTypeWarning \<equiv> ''Warning''"

section \<open>The object store and the event recorder\<close>

text \<open>
  The world holds the stored workloads and crons by namespace and name, the recorded
  events, the UIDs the API server will hand out, and the failures it answers with: each
  \<open>fault\<close> field gives, per object key, the error that call returns instead of doing its
  work. The cached client and the direct reader read the same store and differ in their
  faults only.
\<close>

record World =
  workloads :: "(NamespacedName \<times> Workload) list"
  crons :: "(NamespacedName \<times> Cron) list"
  events :: "Event list"
  uidSource :: "nat \<Rightarrow> UID"
  uidNext :: nat
  nameSuffix :: string
  clientGetFault :: "NamespacedName \<Rightarrow> error option"
  readerGetFault :: "NamespacedName \<Rightarrow> error option"
  createFault :: "NamespacedName \<Rightarrow> error option"
  deleteFault :: "NamespacedName \<Rightarrow> error option"
  cronGetFault :: "NamespacedName \<Rightarrow> error option"
  statusUpdateFault :: "NamespacedName \<Rightarrow> error option"

definition recordEvent :: "World \<Rightarrow> string \<Rightarrow> string \<Rightarrow> World" where
  "recordEvent w ty reason = w\<lparr>events := events w @ [Event ty reason]\<rparr>"

definition clientGet :: "World \<Rightarrow> NamespacedName \<Rightarrow> error + Workload" where
  "clientGet w key =
     (case clientGetFault w key of
        Some e \<Rightarrow> Inl e
      | None \<Rightarrow> (case map_of (workloads w) key of None \<Rightarrow> Inl NotFound | Some x \<Rightarrow> Inr x))"

definition readerGet :: "World \<Rightarrow> NamespacedName \<Rightarrow> error + Workload" where
  "readerGet w key =
     (case readerGetFault w key of
        Some e \<Rightarrow> Inl e
      | None \<Rightarrow> (case map_of (workloads w) key of None \<Rightarrow> Inl NotFound | Some x \<Rightarrow> Inr x))"

definition clientGetCron :: "World \<Rightarrow> NamespacedName \<Rightarrow> error + Cron" where
  "clientGetCron w key =
     (case cronGetFault w key of
        Some e \<Rightarrow> Inl e
      | None \<Rightarrow> (case map_of (crons w) key of None \<Rightarrow> Inl NotFound | Some c \<Rightarrow> Inr c))"

text \<open>\<open>client.Create\<close>: the server rejects an object with neither name nor generateName,
  completes a generateName with a suffix of its own, refuses a name already taken, and
  gives the stored object its UID and creation time; the caller's object is updated to
  the stored one.\<close>

definition clientCreate :: "World \<Rightarrow> time \<Rightarrow> Workload \<Rightarrow> (error + Workload) \<times> World" where
  "clientCreate w now obj =
     (if w_Name obj = [] \<and> w_GenerateName obj = [] then (Inl Invalid, w)
      else
        let named = (if w_Name obj = [] then obj\<lparr>w_Name := w_GenerateName obj @ nameSuffix w\<rparr> else obj);
            key = (w_Namespace named, w_Name named)
        in case createFault w key of
             Some e \<Rightarrow> (Inl e, w)
           | None \<Rightarrow>
               (case map_of (workloads w) key of
                  Some _ \<Rightarrow> (Inl AlreadyExists, w)
                | None \<Rightarrow>
                    let stored = named\<lparr>w_UID := uidSource w (uidNext w), w_CreationTimestamp := now\<rparr>
                    in (Inr stored,
                        w\<lparr>workloads := workloads w @ [(key, stored)], uidNext := Suc (uidNext w)\<rparr>)))"

definition clientDelete :: "World \<Rightarrow> Workload \<Rightarrow> error option \<times> World" where
  "clientDelete w obj =
     (let key = (w_Namespace obj, w_Name obj)
      in case deleteFault w key of
           Some e \<Rightarrow> (Some e, w)
         | None \<Rightarrow>
             (case map_of (workloads w) key of
                None \<Rightarrow> (Some NotFound, w)
              | Some _ \<Rightarrow> (None, w\<lparr>workloads := AList.delete key (workloads w)\<rparr>)))"

text \<open>\<open>client.Status().Update\<close> writes the status of the given cron, and nothing else of
  it, to the stored cron of the same namespace and name. The client then decodes the
  server's answer into the object, which gives it the stored spec and times cut to whole
  seconds; the model leaves the object in memory as it is. The stored crons, the results
  and the events do not depend on the difference: after the last write of a cycle the
  object is not read again, and the times the controller stores are whole seconds.
  Resource versions are not modelled; a conflict is a fault.\<close>

definition statusUpdate :: "World \<Rightarrow> Cron \<Rightarrow> error option \<times> World" where
  "statusUpdate w cron =
     (let key = (c_Namespace cron, c_Name cron)
      in case statusUpdateFault w key of
           Some e \<Rightarrow> (Some e, w)
         | None \<Rightarrow>
             (case map_of (crons w) key of
                None \<Rightarrow> (Some NotFound, w)
              | Some stored \<Rightarrow>
                  (None, w\<lparr>crons := AList.update key (stored\<lparr>Status := Status cron\<rparr>) (crons w)\<rparr>)))"

section \<open>Helpers and libraries the controller calls\<close>

text \<open>
  The controller's file calls functions of the same package that are defined in another
  file (\<open>newEmptyWorkload\<close>, \<open>getDefaultJobName\<close>, \<open>IsWorkloadFinished\<close>,
  \<open>workloadToHistory\<close>, \<open>inActiveList\<close>, \<open>getNextScheduleTime\<close>,
  \<open>nextScheduledTimeDuration\<close>), a constant of package \<open>common\<close>, and library functions
  (\<open>cronv3.ParseStandard\<close>, \<open>reference.GetReference\<close>,
  \<open>controllerutil.SetControllerReference\<close>). They are parameters of the model, with the
  signatures their call sites show. A parsed schedule is its \<open>Next\<close> method.
  \<open>getNextScheduleTime\<close> is given the recorder, so it returns the events it records;
  \<open>SetControllerReference\<close> changes the owner references of the object only, so it
  returns them. A helper that is given the cron reads it and does not change it.
\<close>

type_synonym CronSchedule = "time \<Rightarrow> time"

record Helpers =
  ParseStandard :: "string \<Rightarrow> error + CronSchedule"
  getNextScheduleTime :: "Cron \<Rightarrow> time \<Rightarrow> CronSchedule \<Rightarrow> Event list \<times> (error + time option)"
  nextScheduledTimeDuration :: "CronSchedule \<Rightarrow> time \<Rightarrow> duration option"
  newEmptyWorkload :: "Cron \<Rightarrow> error + Workload"
  getDefaultJobName :: "Cron \<Rightarrow> time \<Rightarrow> string"
  IsWorkloadFinished :: "Workload \<Rightarrow> JobConditionType \<times> bool"
  workloadToHistory :: "Workload \<Rightarrow> string \<Rightarrow> string \<Rightarrow> CronHistory"
  inActiveList :: "ObjectReference list \<Rightarrow> Workload \<Rightarrow> bool"
  GetReference :: "Workload \<Rightarrow> error + ObjectReference"
  SetControllerReference :: "Cron \<Rightarrow> Workload \<Rightarrow> error + ObjectReference list"
  LabelCronName :: string

text \<open>Modelled from the spec: \<open>deleteFromActiveList\<close>, which is called with the cron and
  a UID and is not in the controller's file. It removes the references with that unique
  id from the active list (the active set's uniqueness is by unique id) and leaves the
  list it was given as it is, so a \<open>range\<close> loop over the old list still visits every
  reference.\<close>

definition deleteFromActiveList :: "Cron \<Rightarrow> UID \<Rightarrow> Cron" where
  "deleteFromActiveList cron uid =
     cron\<lparr>Status := (Status cron)\<lparr>Active := filter (\<lambda>r. ref_UID r \<noteq> uid) (Active (Status cron))\<rparr>\<rparr>"

section \<open>deleteWorkload\<close>

text \<open>A failure of \<open>client.Delete\<close> is logged and nothing more: the function goes on to
  record \<open>SuccessfulDelete\<close> and returns nil.\<close>

definition deleteWorkload :: "Helpers \<Rightarrow> Cron \<Rightarrow> World \<Rightarrow> ObjectReference \<Rightarrow> error option \<times> Cron \<times> World" where
  "deleteWorkload H cron w ref =
     (case newEmptyWorkload H cron of
        Inl e \<Rightarrow> (Some e, cron, w)
      | Inr _ \<Rightarrow>
          (case clientGet w (ref_Namespace ref, ref_Name ref) of
             Inl e \<Rightarrow>
               if IsNotFound e then (None, deleteFromActiveList cron (ref_UID ref), w)
               else (Some e, cron, w)
           | Inr workload \<Rightarrow>
               (None, deleteFromActiveList cron (ref_UID ref),
                recordEvent (snd (clientDelete w workload)) EventTypeNormal ''SuccessfulDelete'')))"

section \<open>updateCronHistory\<close>

text \<open>\<open>fmt.Sprintf("%d", n)\<close> for the key of a history entry.\<close>

fun digitsOf :: "nat \<Rightarrow> string" where
  "digitsOf n =
     (if n < 10 then [''0123456789'' ! n]
      else digitsOf (n div 10) @ [''0123456789'' ! (n mod 10)])"

declare digitsOf.simps [simp del]

definition formatInt :: "int \<Rightarrow> string" where
  "formatInt i = (if i < 0 then CHR ''-'' # digitsOf (nat (- i)) else digitsOf (nat i))"

text \<open>The closure \<open>key\<close>: name, a dash, the creation time in seconds. \<open>Created\<close> is a
  pointer and \<open>Unix\<close> is the method of the embedded \<open>time.Time\<close>, so a nil \<open>Created\<close>
  panics.\<close>

definition key :: "CronHistory \<Rightarrow> error + string" where
  "key h =
     (case h_Created h of
        None \<Rightarrow> Inl (Panic ''nil pointer dereference'')
      | Some t \<Rightarrow> Inr (obj_Name (h_Object h) @ ''-'' @ formatInt (Unix t)))"

text \<open>The first loop: the map \<open>history\<close> from key to index; a later index overwrites an
  earlier one of the same key.\<close>

fun historyIndex :: "CronHistory list \<Rightarrow> nat \<Rightarrow> (string \<rightharpoonup> nat) \<Rightarrow> error + (string \<rightharpoonup> nat)" where
  "historyIndex [] i m = Inr m"
| "historyIndex (h # hs) i m =
     (case key h of
        Inl e \<Rightarrow> Inl e
      | Inr k \<Rightarrow> historyIndex hs (Suc i) (m(k \<mapsto> i)))"

text \<open>The second loop: each workload updates the entry of its key or is appended. The map
  is not extended by an appended entry.\<close>

definition updateEntry :: "CronHistory \<Rightarrow> CronHistory \<Rightarrow> CronHistory" where
  "updateEntry old newHistory =
     old\<lparr>h_UID := h_UID newHistory,
         h_Status := h_Status newHistory,
         h_Finished := (if h_Finished newHistory \<noteq> None then h_Finished newHistory else h_Finished old)\<rparr>"

fun foldWorkloads ::
  "(Workload \<Rightarrow> CronHistory) \<Rightarrow> (string \<rightharpoonup> nat) \<Rightarrow> CronHistory list \<Rightarrow> Workload list \<Rightarrow> error option \<times> CronHistory list" where
  "foldWorkloads toHistory m hs [] = (None, hs)"
| "foldWorkloads toHistory m hs (workload # rest) =
     (let newHistory = toHistory workload
      in case key newHistory of
           Inl e \<Rightarrow> (Some e, hs)
         | Inr nk \<Rightarrow>
             (case m nk of
                Some idx \<Rightarrow> foldWorkloads toHistory m (hs[idx := updateEntry (hs ! idx) newHistory]) rest
              | None \<Rightarrow> foldWorkloads toHistory m (hs @ [newHistory]) rest))"

text \<open>The comparison given to \<open>sort.Slice\<close>.\<close>

definition historyLess :: "CronHistory \<Rightarrow> CronHistory \<Rightarrow> bool" where
  "historyLess a b =
     (if h_Created a = None \<and> h_Created b \<noteq> None then False
      else if h_Created a \<noteq> None \<and> h_Created b = None then True
      else if Time_Equal (h_Created a) (h_Created b) then obj_Name (h_Object a) < obj_Name (h_Object b)
      else Time_Before (h_Created a) (h_Created b))"

text \<open>\<open>sort.Slice\<close> promises a slice ordered by \<open>less\<close> and no order among elements that
  compare equal. The model is the insertion sort it runs on slices of up to 12 elements,
  which keeps such elements in their order; on longer slices the library may return
  them in another order.\<close>

fun insertSorted :: "('a \<Rightarrow> 'a \<Rightarrow> bool) \<Rightarrow> 'a \<Rightarrow> 'a list \<Rightarrow> 'a list" where
  "insertSorted lt x [] = [x]"
| "insertSorted lt x (y # ys) =
     (if lt y x then y # insertSorted lt x ys else x # y # ys)"

definition sort_Slice :: "('a \<Rightarrow> 'a \<Rightarrow> bool) \<Rightarrow> 'a list \<Rightarrow> 'a list" where
  "sort_Slice lt xs = foldr (insertSorted lt) xs []"

definition MaxInt :: int where
  "MaxInt = 9223372036854775807"

text \<open>The loop over \<open>toTruncate\<close>. The reference is built before the call, so a nil
  \<open>APIGroup\<close> panics before anything is deleted for that entry.\<close>

fun truncateLoop :: "Helpers \<Rightarrow> Cron \<Rightarrow> World \<Rightarrow> CronHistory list \<Rightarrow> error option \<times> Cron \<times> World" where
  "truncateLoop H cron w [] = (None, cron, w)"
| "truncateLoop H cron w (tr # rest) =
     (case obj_APIGroup (h_Object tr) of
        None \<Rightarrow> (Some (Panic ''nil pointer dereference''), cron, w)
      | Some apiGroup \<Rightarrow>
          (case deleteWorkload H cron w
                  \<lparr>ref_Kind = obj_Kind (h_Object tr),
                   ref_Namespace = c_Namespace cron,
                   ref_Name = obj_Name (h_Object tr),
                   ref_UID = h_UID tr,
                   ref_APIVersion = apiGroup\<rparr> of
             (Some e, cron', w') \<Rightarrow> (Some e, cron', w')
           | (None, cron', w') \<Rightarrow> truncateLoop H cron' w' rest))"

definition setHistory :: "Cron \<Rightarrow> CronHistory list \<Rightarrow> Cron" where
  "setHistory cron hs = cron\<lparr>Status := (Status cron)\<lparr>History := hs\<rparr>\<rparr>"

text \<open>A negative limit makes \<open>historySize - historyLimit\<close> exceed the length of the slice.
  The first slice expression panics when that also exceeds the capacity; otherwise the
  loop runs over the slice up to that bound and the second slice expression panics. The
  model panics at the first expression in both cases, so it says nothing of the
  deletions the code may perform before the second one.\<close>

definition updateCronHistory :: "Helpers \<Rightarrow> Cron \<Rightarrow> World \<Rightarrow> Workload list \<Rightarrow> error option \<times> Cron \<times> World" where
  "updateCronHistory H cron w wls =
     (case historyIndex (History (Status cron)) 0 Map.empty of
        Inl e \<Rightarrow> (Some e, cron, w)
      | Inr m \<Rightarrow>
          (case foldWorkloads
                  (\<lambda>workload. workloadToHistory H workload (t_APIVersion (Template (Spec cron))) (t_Kind (Template (Spec cron))))
                  m (History (Status cron)) wls of
             (Some e, hs) \<Rightarrow> (Some e, setHistory cron hs, w)
           | (None, hs) \<Rightarrow>
               (let sorted = sort_Slice historyLess hs;
                    cron1 = setHistory cron sorted;
                    historySize = int (length sorted);
                    historyLimit = (case HistoryLimit (Spec cron) of None \<Rightarrow> MaxInt | Some l \<Rightarrow> l)
                in if historySize > historyLimit then
                     (if historyLimit < 0 then (Some (Panic ''slice bounds out of range''), cron1, w)
                      else
                        (case truncateLoop H cron1 w (take (nat (historySize - historyLimit)) sorted) of
                           (Some e, cron2, w2) \<Rightarrow> (Some e, cron2, w2)
                         | (None, cron2, w2) \<Rightarrow>
                             (let cron3 = setHistory cron2 (drop (nat (historySize - historyLimit)) (History (Status cron2)))
                              in case statusUpdate w2 cron3 of (r, w3) \<Rightarrow> (r, cron3, w3))))
                   else (case statusUpdate w cron1 of (r, w1) \<Rightarrow> (r, cron1, w1)))))"

section \<open>newWorkloadFromTemplate\<close>

text \<open>The else branch assigns \<open>cron.Spec.ConcurrencyPolicy\<close> on the object in memory.\<close>

definition setPolicy :: "Cron \<Rightarrow> ConcurrencyPolicy \<Rightarrow> Cron" where
  "setPolicy cron p = cron\<lparr>Spec := (Spec cron)\<lparr>ConcurrencyPolicy := p\<rparr>\<rparr>"

definition newWorkloadFromTemplate ::
  "Helpers \<Rightarrow> Cron \<Rightarrow> World \<Rightarrow> time \<Rightarrow> (error + Workload) \<times> Cron \<times> World" where
  "newWorkloadFromTemplate H cron w scheduleTime =
     (case newEmptyWorkload H cron of
        Inl e \<Rightarrow> (Inl e, cron, w)
      | Inr w0 \<Rightarrow>
          (let w1 = (if length (w_GenerateName w0) \<noteq> 0 then w0\<lparr>w_GenerateName := []\<rparr> else w0);
               named = (length (w_Name w1) \<noteq> 0);
               w2 = (if named then w1 else w1\<lparr>w_Name := getDefaultJobName H cron scheduleTime\<rparr>);
               world1 = (if named then recordEvent w EventTypeNormal ''OverridePolicy'' else w);
               cron1 = (if named then setPolicy cron ConcurrentPolicyForbid else cron);
               w3 = w2\<lparr>w_Namespace := c_Namespace cron1\<rparr>;
               labels = (case w_Labels w3 of None \<Rightarrow> [] | Some l \<Rightarrow> l);
               w4 = w3\<lparr>w_Labels := Some (AList.update (LabelCronName H) (c_Name cron1) labels)\<rparr>
           in case SetControllerReference H cron1 w4 of
                Inl e \<Rightarrow> (Inl (Errorf ''failed to set controller owner reference'' e), cron1, world1)
              | Inr owners \<Rightarrow> (Inr (w4\<lparr>w_OwnerReferences := owners\<rparr>), cron1, world1)))"

section \<open>scheduleNextIfPossible\<close>

text \<open>The loop of the Replace policy ranges over the active list as it was when the loop
  started.\<close>

fun replaceLoop :: "Helpers \<Rightarrow> Cron \<Rightarrow> World \<Rightarrow> ObjectReference list \<Rightarrow> error option \<times> Cron \<times> World" where
  "replaceLoop H cron w [] = (None, cron, w)"
| "replaceLoop H cron w (active # rest) =
     (case deleteWorkload H cron w active of
        (Some e, cron', w') \<Rightarrow> (Some e, cron', w')
      | (None, cron', w') \<Rightarrow> replaceLoop H cron' w' rest)"

definition appendActive :: "Cron \<Rightarrow> ObjectReference \<Rightarrow> time \<Rightarrow> Cron" where
  "appendActive cron ref scheduledTime =
     cron\<lparr>Status := (Status cron)\<lparr>Active := Active (Status cron) @ [ref],
                                    LastScheduleTime := Some scheduledTime\<rparr>\<rparr>"

text \<open>From \<open>client.Create\<close> on: both branches of the already-exists check return the
  error; they differ in the \<open>FailedCreate\<close> event.\<close>

definition createAndRecord ::
  "Helpers \<Rightarrow> Cron \<Rightarrow> World \<Rightarrow> time \<Rightarrow> CronSchedule \<Rightarrow> time \<Rightarrow> Workload \<Rightarrow> (error + duration option) \<times> Cron \<times> World" where
  "createAndRecord H cron w now schedule scheduledTime workloadToCreate =
     (case clientCreate w now workloadToCreate of
        (Inl e, w1) \<Rightarrow>
          if IsAlreadyExists e \<and> inActiveList H (Active (Status cron)) workloadToCreate then (Inl e, cron, w1)
          else (Inl e, cron, recordEvent w1 EventTypeWarning ''FailedCreate'')
      | (Inr created, w1) \<Rightarrow>
          (case GetReference H created of
             Inl e \<Rightarrow> (Inl e, cron, w1)
           | Inr ref \<Rightarrow>
               (let w2 = recordEvent w1 EventTypeNormal ''SuccessfulCreate'';
                    cron1 = appendActive cron ref scheduledTime
                in case statusUpdate w2 cron1 of
                     (Some e, w3) \<Rightarrow> (Inl e, cron1, w3)
                   | (None, w3) \<Rightarrow> (Inr (nextScheduledTimeDuration H schedule now), cron1, w3))))"

definition scheduleNextIfPossible ::
  "Helpers \<Rightarrow> Cron \<Rightarrow> World \<Rightarrow> time \<Rightarrow> (error + duration option) \<times> Cron \<times> World" where
  "scheduleNextIfPossible H cron w now =
     (case ParseStandard H (Schedule (Spec cron)) of
        Inl e \<Rightarrow> (Inr None, cron, recordEvent w EventTypeWarning ''InvalidSchedule'')
      | Inr schedule \<Rightarrow>
          (case getNextScheduleTime H cron now schedule of
             (evs, r) \<Rightarrow>
               (let w1 = w\<lparr>events := events w @ evs\<rparr>
                in case r of
                     Inl e \<Rightarrow> (Inl e, cron, recordEvent w1 EventTypeWarning ''InvalidSchedule'')
                   | Inr None \<Rightarrow> (Inr (nextScheduledTimeDuration H schedule now), cron, w1)
                   | Inr (Some scheduledTime) \<Rightarrow>
                       if Time_Equal (LastScheduleTime (Status cron)) (Some scheduledTime)
                       then (Inr (nextScheduledTimeDuration H schedule now), cron, w1)
                       else if ConcurrencyPolicy (Spec cron) = ConcurrentPolicyForbid \<and> length (Active (Status cron)) > 0
                       then (Inr (nextScheduledTimeDuration H schedule now), cron,
                             recordEvent w1 EventTypeNormal ''AlreadyActive'')
                       else
                         (case (if ConcurrencyPolicy (Spec cron) = ConcurrentPolicyReplace
                                then replaceLoop H cron w1 (Active (Status cron))
                                else (None, cron, w1)) of
                            (Some e, cron2, w2) \<Rightarrow> (Inl e, cron2, w2)
                          | (None, cron2, w2) \<Rightarrow>
                              (case newWorkloadFromTemplate H cron2 w2 scheduledTime of
                                 (Inl e, cron3, w3) \<Rightarrow>
                                   (Inl (Errorf ''unable to initialize workload from cron template'' e), cron3, w3)
                               | (Inr workloadToCreate, cron3, w3) \<Rightarrow>
                                   createAndRecord H cron3 w3 now schedule scheduledTime workloadToCreate)))))"

section \<open>trimFinishedWorkloadsFromActiveList\<close>

text \<open>
  The parameter \<open>cron\<close> is a pointer, and the first loop may assign it the freshly read
  \<open>latestCron\<close>. From then on the function reads and changes that object and no longer
  the caller's. The pair holds the caller's cron and, once the pointer is reassigned, the
  object it points to.
\<close>

type_synonym CronPtr = "Cron \<times> Cron option"

definition target :: "CronPtr \<Rightarrow> Cron" where
  "target p = (case snd p of None \<Rightarrow> fst p | Some c \<Rightarrow> c)"

definition mutate :: "(Cron \<Rightarrow> Cron) \<Rightarrow> CronPtr \<Rightarrow> CronPtr" where
  "mutate f p = (case snd p of None \<Rightarrow> (f (fst p), None) | Some c \<Rightarrow> (fst p, Some (f c)))"

fun trimObserved ::
  "Helpers \<Rightarrow> CronPtr \<Rightarrow> World \<Rightarrow> UID list \<Rightarrow> Workload list \<Rightarrow> error option \<times> CronPtr \<times> World \<times> UID list" where
  "trimObserved H p w knownActive [] = (None, p, w, knownActive)"
| "trimObserved H p w knownActive (wl # rest) =
     (let known = knownActive @ [w_UID wl];
          found = list_ex (\<lambda>r. ref_UID r = w_UID wl) (Active (Status (target p)));
          finished = snd (IsWorkloadFinished H wl)
      in if \<not> found \<and> \<not> finished then
           (case clientGetCron w (c_Namespace (target p), c_Name (target p)) of
              Inl e \<Rightarrow> (Some e, p, w, known)
            | Inr latestCron \<Rightarrow>
                if inActiveList H (Active (Status latestCron)) wl
                then trimObserved H (fst p, Some latestCron) w known rest
                else trimObserved H p (recordEvent w EventTypeWarning ''ExpectedWorkload'') known rest)
         else if found \<and> finished then
           trimObserved H (mutate (\<lambda>c. deleteFromActiveList c (w_UID wl)) p)
             (recordEvent w EventTypeNormal ''SawCompletedWorkload'') known rest
         else trimObserved H p w known rest)"

text \<open>The second loop. After a failed \<open>reader.Get\<close> the error is returned whether or not
  it is a not-found error.\<close>

fun trimMissing ::
  "Helpers \<Rightarrow> CronPtr \<Rightarrow> World \<Rightarrow> UID list \<Rightarrow> ObjectReference list \<Rightarrow> error option \<times> CronPtr \<times> World" where
  "trimMissing H p w knownActive [] = (None, p, w)"
| "trimMissing H p w knownActive (objRef # rest) =
     (if ref_UID objRef \<in> set knownActive then trimMissing H p w knownActive rest
      else
        (case newEmptyWorkload H (target p) of
           Inl e \<Rightarrow> trimMissing H p w knownActive rest
         | Inr wl \<Rightarrow>
             (case readerGet w (ref_Namespace objRef, ref_Name objRef) of
                Inl e \<Rightarrow>
                  if IsNotFound e
                  then (Some e, mutate (\<lambda>c. deleteFromActiveList c (ref_UID objRef)) p,
                        recordEvent w EventTypeNormal ''MissingWorkload'')
                  else (Some e, p, w)
              | Inr _ \<Rightarrow> trimMissing H p w knownActive rest)))"

definition trimFinishedWorkloadsFromActiveList ::
  "Helpers \<Rightarrow> Cron \<Rightarrow> World \<Rightarrow> Workload list \<Rightarrow> error option \<times> Cron \<times> World" where
  "trimFinishedWorkloadsFromActiveList H cron w wls =
     (case trimObserved H (cron, None) w [] wls of
        (Some e, p, w1, known) \<Rightarrow> (Some e, fst p, w1)
      | (None, p, w1, known) \<Rightarrow>
          (case trimMissing H p w1 known (Active (Status (target p))) of
             (r, p2, w2) \<Rightarrow> (r, fst p2, w2)))"

section \<open>listActiveWorkloads, syncCron, Reconcile\<close>

fun listActiveLoop :: "Helpers \<Rightarrow> Cron \<Rightarrow> World \<Rightarrow> Workload list \<Rightarrow> ObjectReference list \<Rightarrow> error + Workload list" where
  "listActiveLoop H cron w acc [] = Inr acc"
| "listActiveLoop H cron w acc (ref # rest) =
     (case newEmptyWorkload H cron of
        Inl e \<Rightarrow> listActiveLoop H cron w acc rest
      | Inr _ \<Rightarrow>
          (case clientGet w (ref_Namespace ref, ref_Name ref) of
             Inl e \<Rightarrow> if IsNotFound e then listActiveLoop H cron w acc rest else Inl e
           | Inr workload \<Rightarrow> listActiveLoop H cron w (acc @ [workload]) rest))"

definition listActiveWorkloads :: "Helpers \<Rightarrow> Cron \<Rightarrow> World \<Rightarrow> error + Workload list" where
  "listActiveWorkloads H cron w = listActiveLoop H cron w [] (Active (Status cron))"

definition syncCron ::
  "Helpers \<Rightarrow> Cron \<Rightarrow> World \<Rightarrow> time \<Rightarrow> Workload list \<Rightarrow> (error + duration option) \<times> Cron \<times> World" where
  "syncCron H cron w now wls =
     (case trimFinishedWorkloadsFromActiveList H cron w wls of
        (Some e, cron1, w1) \<Rightarrow> (Inl e, cron1, w1)
      | (None, cron1, w1) \<Rightarrow>
          (case statusUpdate w1 cron1 of
             (Some e, w2) \<Rightarrow> (Inl e, cron1, w2)
           | (None, w2) \<Rightarrow>
               if c_DeletionTimestamp cron1 \<noteq> None then (Inr None, cron1, w2)
               else if Suspend (Spec cron1) = Some True then (Inr None, cron1, w2)
               else if (case Deadline (Spec cron1) of None \<Rightarrow> False | Some d \<Rightarrow> d < now)
               then (Inr None, cron1, recordEvent w2 EventTypeNormal ''Deadline'')
               else scheduleNextIfPossible H cron1 w2 now))"

text \<open>\<open>ctrl.Result\<close> is its \<open>RequeueAfter\<close>; the empty result has zero. \<open>Reconcile\<close> reads
  the clock once, in \<open>syncCron\<close>; the model takes that reading as \<open>now\<close>.\<close>

definition Reconcile :: "Helpers \<Rightarrow> World \<Rightarrow> NamespacedName \<Rightarrow> time \<Rightarrow> (error + duration) \<times> World" where
  "Reconcile H w req now =
     (case clientGetCron w req of
        Inl e \<Rightarrow> if IsNotFound e then (Inr 0, w) else (Inl e, w)
      | Inr cron \<Rightarrow>
          (case listActiveWorkloads H cron w of
             Inl e \<Rightarrow> (Inl e, w)
           | Inr actives \<Rightarrow>
               (case updateCronHistory H cron w actives of
                  (Some e, cron1, w1) \<Rightarrow> (Inl e, w1)
                | (None, cron1, w1) \<Rightarrow>
                    (case syncCron H cron1 w1 now actives of
                       (Inl e, cron2, w2) \<Rightarrow> (Inl e, w2)
                     | (Inr None, cron2, w2) \<Rightarrow> (Inr 0, w2)
                     | (Inr (Some requeueAfter), cron2, w2) \<Rightarrow> (Inr requeueAfter, w2)))))"

section \<open>Instances of the helpers, for the examples\<close>

text \<open>Modelled from the spec: \<open>newEmptyWorkload\<close>, the object built from the workload
  template of the cron (an error when the template holds none).\<close>

definition spec_newEmptyWorkload :: "Cron \<Rightarrow> error + Workload" where
  "spec_newEmptyWorkload cron =
     (case t_Workload (Template (Spec cron)) of
        None \<Rightarrow> Inl (HelperError ''unsupported workload'')
      | Some x \<Rightarrow> Inr x)"

text \<open>Modelled from the spec: \<open>IsWorkloadFinished\<close>, the lifecycle classifier. The most
  advanced reported condition is the last one; Succeeded and Failed are the only terminal
  outcomes, and a workload with no condition is unfinished.\<close>

definition spec_IsWorkloadFinished :: "Workload \<Rightarrow> JobConditionType \<times> bool" where
  "spec_IsWorkloadFinished wl =
     (case w_Conditions wl of
        [] \<Rightarrow> ([], False)
      | c # cs \<Rightarrow>
          (let ty = cond_Type (last (c # cs)) in (ty, ty = JobSucceeded \<or> ty = JobFailed)))"

text \<open>Modelled from the spec: \<open>workloadToHistory\<close>, the history entry of an observed
  workload: unique id, object reference (kind, API group, name), status, created time,
  and the finished time of a finished workload.\<close>

definition spec_workloadToHistory :: "Workload \<Rightarrow> string \<Rightarrow> string \<Rightarrow> CronHistory" where
  "spec_workloadToHistory wl apiVersion kind =
     \<lparr>h_UID = w_UID wl,
      h_Object = \<lparr>obj_APIGroup = Some apiVersion, obj_Kind = kind, obj_Name = w_Name wl\<rparr>,
      h_Status = fst (spec_IsWorkloadFinished wl),
      h_Created = Some (w_CreationTimestamp wl),
      h_Finished = (if snd (spec_IsWorkloadFinished wl)
                    then Some (cond_LastTransitionTime (last (w_Conditions wl))) else None)\<rparr>"

text \<open>Modelled from the spec: \<open>inActiveList\<close>, whether the workload is tracked in the
  active list; the active set's uniqueness is by unique id.\<close>

definition spec_inActiveList :: "ObjectReference list \<Rightarrow> Workload \<Rightarrow> bool" where
  "spec_inActiveList active wl = list_ex (\<lambda>r. ref_UID r = w_UID wl) active"

text \<open>Modelled from the spec: \<open>getDefaultJobName\<close>, a name synthesized from the resource
  name and the firing timestamp.\<close>

definition spec_getDefaultJobName :: "Cron \<Rightarrow> time \<Rightarrow> string" where
  "spec_getDefaultJobName cron scheduleTime = c_Name cron @ ''-'' @ formatInt (Unix scheduleTime)"

text \<open>Modelled from the spec: \<open>getNextScheduleTime\<close>, the schedule evaluator. It walks
  forward from the last-fired time (the creation time when there is none), counting the
  occurrences up to now; more than 100 of them is the too-many-missed condition, with no
  due time and a warning; otherwise the most recent occurrence is due, unless it is the
  last-fired time.\<close>

fun mostRecentOccurrence :: "CronSchedule \<Rightarrow> time \<Rightarrow> nat \<Rightarrow> time \<Rightarrow> time option \<Rightarrow> bool \<times> time option" where
  "mostRecentOccurrence schedule now 0 t found = (True, None)"
| "mostRecentOccurrence schedule now (Suc fuel) t found =
     (if schedule t \<le> now
      then mostRecentOccurrence schedule now fuel (schedule t) (Some (schedule t))
      else (False, found))"

definition spec_getNextScheduleTime :: "Cron \<Rightarrow> time \<Rightarrow> CronSchedule \<Rightarrow> Event list \<times> (error + time option)" where
  "spec_getNextScheduleTime cron now schedule =
     (let anchor = (case LastScheduleTime (Status cron) of Some t \<Rightarrow> t | None \<Rightarrow> c_CreationTimestamp cron)
      in case mostRecentOccurrence schedule now 101 anchor None of
           (True, _) \<Rightarrow> ([Event EventTypeWarning ''TooManyMissedTimes''], Inr None)
         | (False, None) \<Rightarrow> ([], Inr None)
         | (False, Some t) \<Rightarrow>
             if LastScheduleTime (Status cron) = Some t then ([], Inr None) else ([], Inr (Some t)))"

text \<open>Modelled from the spec: \<open>nextScheduledTimeDuration\<close>, the next-wakeup hint: the
  next occurrence after now, minus now.\<close>

definition spec_nextScheduledTimeDuration :: "CronSchedule \<Rightarrow> time \<Rightarrow> duration option" where
  "spec_nextScheduledTimeDuration schedule now = Some (schedule now - now)"

text \<open>The libraries, as far as the examples need them: one schedule expression parses, to
  the schedule that fires at every full minute; a reference names the object; the
  controller reference is a reference to the cron.\<close>

definition everyMinute :: CronSchedule where
  "everyMinute t = (t div 60000000000 + 1) * 60000000000"

definition sampleHelpers :: Helpers where
  "sampleHelpers =
     \<lparr>ParseStandard = (\<lambda>s. if s = ''* * * * *'' then Inr everyMinute else Inl (HelperError ''invalid schedule'')),
      getNextScheduleTime = spec_getNextScheduleTime,
      nextScheduledTimeDuration = spec_nextScheduledTimeDuration,
      newEmptyWorkload = spec_newEmptyWorkload,
      getDefaultJobName = spec_getDefaultJobName,
      IsWorkloadFinished = spec_IsWorkloadFinished,
      workloadToHistory = spec_workloadToHistory,
      inActiveList = spec_inActiveList,
      GetReference = (\<lambda>wl. Inr \<lparr>ref_Kind = w_Kind wl, ref_Namespace = w_Namespace wl, ref_Name = w_Name wl,
                                 ref_UID = w_UID wl, ref_APIVersion = w_APIVersion wl\<rparr>),
      SetControllerReference = (\<lambda>cron wl. Inr [\<lparr>ref_Kind = ''Cron'', ref_Namespace = c_Namespace cron,
                                 ref_Name = c_Name cron, ref_UID = c_UID cron, ref_APIVersion = ''kubedl.io/v1alpha1''\<rparr>]),
      LabelCronName = ''kubedl.io/cron-name''\<rparr>"

text \<open>A cron that fires every minute, its template without a name, and a world that
  stores it and nothing else and answers every call without a failure.\<close>

definition sampleTemplate :: Workload where
  "sampleTemplate =
     \<lparr>w_Kind = ''PyTorchJob'', w_APIVersion = ''kubeflow.org/v1'', w_Namespace = [], w_Name = [],
      w_GenerateName = ''train-'', w_UID = [], w_CreationTimestamp = 0, w_Labels = None,
      w_OwnerReferences = [], w_Conditions = []\<rparr>"

definition sampleCron :: Cron where
  "sampleCron =
     \<lparr>c_Namespace = ''default'', c_Name = ''nightly'', c_UID = ''cron-uid'',
      c_CreationTimestamp = 0, c_DeletionTimestamp = None,
      Spec = \<lparr>Schedule = ''* * * * *'',
              Template = \<lparr>t_APIVersion = ''kubeflow.org/v1'', t_Kind = ''PyTorchJob'', t_Workload = Some sampleTemplate\<rparr>,
              ConcurrencyPolicy = ConcurrentPolicyAllow, Suspend = None, Deadline = None, HistoryLimit = None\<rparr>,
      Status = \<lparr>Active = [], History = [], LastScheduleTime = None\<rparr>\<rparr>"

definition noFault :: "NamespacedName \<Rightarrow> error option" where
  "noFault k = None"

definition worldWith :: "Cron \<Rightarrow> (NamespacedName \<times> Workload) list \<Rightarrow> World" where
  "worldWith cron wls =
     \<lparr>workloads = wls, crons = [((c_Namespace cron, c_Name cron), cron)], events = [],
      uidSource = (\<lambda>n. ''uid-'' @ formatInt (int n)), uidNext = 0, nameSuffix = ''x7k2p'',
      clientGetFault = noFault, readerGetFault = noFault, createFault = noFault,
      deleteFault = noFault, cronGetFault = noFault, statusUpdateFault = noFault\<rparr>"

text \<open>Builders for the examples: a stored workload of the sample cron, the reference to
  it, a history entry, and the sample cron with a given status, policy and history
  limit.\<close>

definition mkWorkload :: "string \<Rightarrow> UID \<Rightarrow> time \<Rightarrow> JobCondition list \<Rightarrow> Workload" where
  "mkWorkload name uid created conds =
     sampleTemplate\<lparr>w_Namespace := ''default'', w_Name := name, w_GenerateName := [], w_UID := uid,
                    w_CreationTimestamp := created, w_Conditions := conds\<rparr>"

definition storedAs :: "Workload \<Rightarrow> NamespacedName \<times> Workload" where
  "storedAs wl = ((w_Namespace wl, w_Name wl), wl)"

definition mkRef :: "Workload \<Rightarrow> ObjectReference" where
  "mkRef wl =
     \<lparr>ref_Kind = w_Kind wl, ref_Namespace = w_Namespace wl, ref_Name = w_Name wl,
      ref_UID = w_UID wl, ref_APIVersion = w_APIVersion wl\<rparr>"

definition mkHistory :: "string \<Rightarrow> UID \<Rightarrow> JobConditionType \<Rightarrow> time option \<Rightarrow> time option \<Rightarrow> CronHistory" where
  "mkHistory name uid st created finished =
     \<lparr>h_UID = uid,
      h_Object = \<lparr>obj_APIGroup = Some ''kubeflow.org/v1'', obj_Kind = ''PyTorchJob'', obj_Name = name\<rparr>,
      h_Status = st, h_Created = created, h_Finished = finished\<rparr>"

definition cronWith :: "ConcurrencyPolicy \<Rightarrow> int option \<Rightarrow> CronStatus \<Rightarrow> Cron" where
  "cronWith policy limit st =
     sampleCron\<lparr>Spec := (Spec sampleCron)\<lparr>ConcurrencyPolicy := policy, HistoryLimit := limit\<rparr>,
                Status := st\<rparr>"


text \<open>What the examples read off a world: the stored status of a cron, the names in a
  history and in an active list, and the keys of the stored workloads.\<close>

definition storedStatus :: "World \<Rightarrow> NamespacedName \<Rightarrow> CronStatus option" where
  "storedStatus w k = map_option Status (map_of (crons w) k)"

definition storedPolicy :: "World \<Rightarrow> NamespacedName \<Rightarrow> ConcurrencyPolicy option" where
  "storedPolicy w k = map_option (ConcurrencyPolicy \<circ> Spec) (map_of (crons w) k)"

definition historyNames :: "CronStatus \<Rightarrow> string list" where
  "historyNames st = map (obj_Name \<circ> h_Object) (History st)"

definition activeNames :: "CronStatus \<Rightarrow> string list" where
  "activeNames st = map ref_Name (Active st)"

definition activeUIDs :: "CronStatus \<Rightarrow> UID list" where
  "activeUIDs st = map ref_UID (Active st)"

definition storedWorkloads :: "World \<Rightarrow> NamespacedName list" where
  "storedWorkloads w = map fst (workloads w)"

definition storedUIDs :: "World \<Rightarrow> UID list" where
  "storedUIDs w = map (w_UID \<circ> snd) (workloads w)"

section \<open>What a cycle that does not fire leaves alone\<close>





section \<open>The order of the history\<close>

text \<open>The order the history is kept in: \<open>inOrder a b\<close> when \<open>a\<close> may stand before \<open>b\<close>.\<close>

definition inOrder :: "CronHistory \<Rightarrow> CronHistory \<Rightarrow> bool" where
  "inOrder a b =
     (case (h_Created a, h_Created b) of
        (Some t, Some u) \<Rightarrow> t < u \<or> (t = u \<and> obj_Name (h_Object a) \<le> obj_Name (h_Object b))
      | (Some t, None) \<Rightarrow> True
      | (None, Some u) \<Rightarrow> False
      | (None, None) \<Rightarrow> obj_Name (h_Object a) \<le> obj_Name (h_Object b))"

text \<open>A cron whose history is out of order.\<close>

definition sortCron :: Cron where
  "sortCron =
     cronWith ConcurrentPolicyAllow None
       \<lparr>Active = [],
        History = [mkHistory ''c'' ''uid-c'' JobSucceeded (Some 9000000000) (Some 9500000000),
                   mkHistory ''b'' ''uid-b'' JobSucceeded (Some 7000000000) (Some 7500000000),
                   mkHistory ''a'' ''uid-a'' JobFailed (Some 7000000000) (Some 7900000000)],
        LastScheduleTime = None\<rparr>"



text \<open>A failure of one call on one object, and the key of the sample cron.\<close>

definition failFor :: "NamespacedName \<Rightarrow> error \<Rightarrow> NamespacedName \<Rightarrow> error option" where
  "failFor k e k' = (if k' = k then Some e else None)"

definition sampleKey :: NamespacedName where
  "sampleKey = (''default'', ''nightly'')"

text \<open>A running workload of the sample cron.\<close>

definition jobA :: Workload where
  "jobA = mkWorkload ''a'' ''uid-a'' 7000000000 []"

text \<open>History limit 1 and two entries in the history; the workload of the older entry
  is stored, and deleting it fails.\<close>

definition limitCron :: Cron where
  "limitCron =
     cronWith ConcurrentPolicyAllow (Some 1)
       \<lparr>Active = [],
        History = [mkHistory ''a'' ''uid-a'' JobSucceeded (Some 7000000000) (Some 7500000000),
                   mkHistory ''b'' ''uid-b'' JobSucceeded (Some 9000000000) (Some 9500000000)],
        LastScheduleTime = None\<rparr>"

definition limitWorld :: World where
  "limitWorld =
     (worldWith limitCron [storedAs jobA])
       \<lparr>deleteFault := failFor (''default'', ''a'') (APIError ''internal error'')\<rparr>"

text \<open>Policy Replace and one active workload, stored and running; deleting it fails.\<close>

definition replaceCron :: Cron where
  "replaceCron =
     cronWith ConcurrentPolicyReplace None
       \<lparr>Active = [mkRef jobA], History = [], LastScheduleTime = None\<rparr>"

definition replaceWorld :: World where
  "replaceWorld =
     (worldWith replaceCron [storedAs jobA])
       \<lparr>deleteFault := failFor (''default'', ''a'') (APIError ''internal error'')\<rparr>"

text \<open>One active reference whose workload is not in the store.\<close>

definition missingCron :: Cron where
  "missingCron =
     cronWith ConcurrentPolicyAllow None
       \<lparr>Active = [mkRef jobA], History = [], LastScheduleTime = None\<rparr>"

definition missingWorld :: World where
  "missingWorld = worldWith missingCron []"

text \<open>The sample cron with a template that names its workload, under the declared
  policies Allow and Replace.\<close>

definition fixedCron :: "ConcurrencyPolicy \<Rightarrow> CronStatus \<Rightarrow> Cron" where
  "fixedCron policy st =
     (cronWith policy None st)
       \<lparr>Spec := (Spec (cronWith policy None st))
          \<lparr>Template := \<lparr>t_APIVersion = ''kubeflow.org/v1'', t_Kind = ''PyTorchJob'',
                         t_Workload = Some (sampleTemplate\<lparr>w_Name := ''fixed'', w_GenerateName := []\<rparr>)\<rparr>\<rparr>\<rparr>"

definition emptyStatus :: CronStatus where
  "emptyStatus = \<lparr>Active = [], History = [], LastScheduleTime = None\<rparr>"

text \<open>Two cycles of that cron from an empty store: at 90 s, when the firing of 60 s is
  due, and at 150 s, when the firing of 120 s is due.\<close>

definition fixedCycle1 :: "ConcurrencyPolicy \<Rightarrow> (error + duration) \<times> World" where
  "fixedCycle1 policy =
     Reconcile sampleHelpers (worldWith (fixedCron policy emptyStatus) []) sampleKey 90000000000"

definition fixedCycle2 :: "ConcurrencyPolicy \<Rightarrow> (error + duration) \<times> World" where
  "fixedCycle2 policy = Reconcile sampleHelpers (snd (fixedCycle1 policy)) sampleKey 150000000000"

text \<open>The sample cron with a schedule expression that does not parse.\<close>

definition invalidCron :: Cron where
  "invalidCron = sampleCron\<lparr>Spec := (Spec sampleCron)\<lparr>Schedule := ''* * * *''\<rparr>\<rparr>"

text \<open>The workload built from the sample template for the firing at 60 s.\<close>

definition builtWorkload :: Workload where
  "builtWorkload =
     \<lparr>w_Kind = ''PyTorchJob'', w_APIVersion = ''kubeflow.org/v1'', w_Namespace = ''default'',
      w_Name = ''nightly-60'', w_GenerateName = [], w_UID = [], w_CreationTimestamp = 0,
      w_Labels = Some [(''kubedl.io/cron-name'', ''nightly'')],
      w_OwnerReferences = [\<lparr>ref_Kind = ''Cron'', ref_Namespace = ''default'', ref_Name = ''nightly'',
                             ref_UID = ''cron-uid'', ref_APIVersion = ''kubedl.io/v1alpha1''\<rparr>],
      w_Conditions = []\<rparr>"

text \<open>A workload named \<open>fixed\<close> that is stored, running and in the active list; a cron
  whose template names its workload \<open>fixed\<close> and carries the metadata of that stored
  object, its UID included; and the workload built from that template.\<close>

definition jobFixed :: Workload where
  "jobFixed = mkWorkload ''fixed'' ''uid-0'' 90000000000 []"

definition trackedCron :: Cron where
  "trackedCron =
     (cronWith ConcurrentPolicyAllow None
        \<lparr>Active = [mkRef jobFixed], History = [], LastScheduleTime = Some 60000000000\<rparr>)
       \<lparr>Spec := (Spec sampleCron)
          \<lparr>Template := \<lparr>t_APIVersion = ''kubeflow.org/v1'', t_Kind = ''PyTorchJob'',
                         t_Workload = Some (sampleTemplate\<lparr>w_Name := ''fixed'', w_GenerateName := [],
                                                          w_UID := ''uid-0''\<rparr>)\<rparr>\<rparr>\<rparr>"

definition trackedWorld :: World where
  "trackedWorld = worldWith trackedCron [storedAs jobFixed]"

definition trackedWorkload :: Workload where
  "trackedWorkload =
     \<lparr>w_Kind = ''PyTorchJob'', w_APIVersion = ''kubeflow.org/v1'', w_Namespace = ''default'',
      w_Name = ''fixed'', w_GenerateName = [], w_UID = ''uid-0'', w_CreationTimestamp = 0,
      w_Labels = Some [(''kubedl.io/cron-name'', ''nightly'')],
      w_OwnerReferences = [\<lparr>ref_Kind = ''Cron'', ref_Namespace = ''default'', ref_Name = ''nightly'',
                             ref_UID = ''cron-uid'', ref_APIVersion = ''kubedl.io/v1alpha1''\<rparr>],
      w_Conditions = []\<rparr>"




text \<open>A cron whose history holds an entry without a created time (the field is
  optional) before an entry with one.\<close>

definition absentCron :: Cron where
  "absentCron =
     cronWith ConcurrentPolicyAllow None
       \<lparr>Active = [],
        History = [mkHistory ''a'' ''uid-a'' JobCreated None None,
                   mkHistory ''b'' ''uid-b'' JobSucceeded (Some 7000000000) (Some 7500000000)],
        LastScheduleTime = None\<rparr>"

section \<open>Properties of the history fold\<close>

lemma inOrder_iff: "inOrder a b \<longleftrightarrow> \<not> historyLess b a"
  by (auto simp: inOrder_def historyLess_def split: option.splits)

lemma inOrder_trans: "inOrder a b \<Longrightarrow> inOrder b c \<Longrightarrow> inOrder a c"
  by (auto simp: inOrder_def split: option.splits)

lemma inOrder_total: "inOrder a b \<or> inOrder b a"
  by (auto simp: inOrder_def split: option.splits)

text \<open>The comparison is a strict weak order, which is what \<open>sort.Slice\<close> asks of it;
  so every permutation it may return is ordered in the sense of \<open>inOrder\<close>.\<close>

lemma historyLess_irrefl: "\<not> historyLess a a"
  by (auto simp: historyLess_def split: option.splits)

lemma historyLess_trans: "historyLess a b \<Longrightarrow> historyLess b c \<Longrightarrow> historyLess a c"
  by (auto simp: historyLess_def split: option.splits if_splits)

lemma set_insertSorted: "set (insertSorted lt x ys) = insert x (set ys)"
  by (induction ys) auto

lemma sorted_insertSorted:
  "sorted_wrt inOrder ys \<Longrightarrow> sorted_wrt inOrder (insertSorted historyLess x ys)"
proof (induction ys)
  case Nil
  then show ?case by simp
next
  case (Cons y ys)
  show ?case
  proof (cases "historyLess y x")
    case True
    then have "inOrder y x" using inOrder_total inOrder_iff by blast
    with Cons True show ?thesis by (auto simp: set_insertSorted)
  next
    case False
    then have xy: "inOrder x y" by (simp add: inOrder_iff)
    have "\<forall>z\<in>set ys. inOrder x z" using Cons.prems xy inOrder_trans by auto
    with Cons.prems xy False show ?thesis by auto
  qed
qed

lemma sorted_sort_Slice: "sorted_wrt inOrder (sort_Slice historyLess xs)"
  unfolding sort_Slice_def by (induction xs) (auto intro: sorted_insertSorted)

lemma length_insertSorted: "length (insertSorted lt x ys) = Suc (length ys)"
  by (induction ys) auto

lemma length_sort_Slice: "length (sort_Slice lt xs) = length xs"
  unfolding sort_Slice_def by (induction xs) (auto simp: length_insertSorted)

lemma key_error: "key h = Inl e \<Longrightarrow> \<exists>s. e = Panic s"
  by (auto simp: key_def split: option.splits)

lemma historyIndex_error: "historyIndex hs i m = Inl e \<Longrightarrow> \<exists>s. e = Panic s"
  by (induction hs i m rule: historyIndex.induct) (auto split: sum.splits dest: key_error)

lemma foldWorkloads_error: "foldWorkloads f m hs wls = (Some e, hs') \<Longrightarrow> \<exists>s. e = Panic s"
  by (induction f m hs wls rule: foldWorkloads.induct)
     (auto simp: Let_def split: sum.splits option.splits dest: key_error)

lemma deleteFromActiveList_frame:
  "History (Status (deleteFromActiveList c u)) = History (Status c)"
  "Spec (deleteFromActiveList c u) = Spec c"
  "c_Namespace (deleteFromActiveList c u) = c_Namespace c"
  "c_Name (deleteFromActiveList c u) = c_Name c"
  "LastScheduleTime (Status (deleteFromActiveList c u)) = LastScheduleTime (Status c)"
  by (simp_all add: deleteFromActiveList_def)

lemma deleteWorkload_frame:
  assumes "deleteWorkload H c w r = (e, c', w')"
  shows "History (Status c') = History (Status c)" and "Spec c' = Spec c"
    and "c_Namespace c' = c_Namespace c" and "c_Name c' = c_Name c"
    and "LastScheduleTime (Status c') = LastScheduleTime (Status c)"
    and "crons w' = crons w"
  using assms
  by (auto simp: deleteWorkload_def recordEvent_def clientDelete_def Let_def deleteFromActiveList_frame
           split: sum.splits if_splits option.splits)

lemma truncateLoop_frame:
  "truncateLoop H c w ts = (e, c', w') \<Longrightarrow>
     History (Status c') = History (Status c) \<and> Spec c' = Spec c \<and>
     c_Namespace c' = c_Namespace c \<and> c_Name c' = c_Name c \<and>
     LastScheduleTime (Status c') = LastScheduleTime (Status c) \<and> crons w' = crons w"
proof (induction ts arbitrary: c w)
  case Nil
  then show ?case by simp
next
  case (Cons t ts)
  show ?case
  proof (cases "obj_APIGroup (h_Object t)")
    case None
    with Cons.prems show ?thesis by simp
  next
    case (Some g)
    obtain e1 c1 w1 where d: "deleteWorkload H c w
        \<lparr>ref_Kind = obj_Kind (h_Object t), ref_Namespace = c_Namespace c,
         ref_Name = obj_Name (h_Object t), ref_UID = h_UID t, ref_APIVersion = g\<rparr> = (e1, c1, w1)"
      by (metis prod_cases3)
    note fr = deleteWorkload_frame [OF d]
    show ?thesis
    proof (cases e1)
      case None
      with Cons.prems Some d have "truncateLoop H c1 w1 ts = (e, c', w')" by simp
      from Cons.IH [OF this] fr show ?thesis by simp
    next
      case (Some x)
      with Cons.prems \<open>obj_APIGroup (h_Object t) = Some g\<close> d fr show ?thesis by auto
    qed
  qed
qed

lemma setHistory_simps:
  "History (Status (setHistory c hs)) = hs"
  "Active (Status (setHistory c hs)) = Active (Status c)"
  "LastScheduleTime (Status (setHistory c hs)) = LastScheduleTime (Status c)"
  "Spec (setHistory c hs) = Spec c"
  "c_Namespace (setHistory c hs) = c_Namespace c"
  "c_Name (setHistory c hs) = c_Name c"
  by (simp_all add: setHistory_def)

lemma statusUpdate_stored:
  "statusUpdate w c = (None, w') \<Longrightarrow>
     \<exists>stored. map_of (crons w') (c_Namespace c, c_Name c) = Some stored \<and> Status stored = Status c"
  by (auto simp: statusUpdate_def Let_def update_conv' split: option.splits)

text \<open>
  The order after a fold that returns. After a run of \<open>updateCronHistory\<close> that does not
  panic, the history of the cron is ordered: ascending by created time and, for entries
  of the same created time, by ascending object name. When the function returns no
  error, that history is the stored one. (No entry of such a run lacks a created time:
  the key closure would have panicked.)
\<close>

lemma updateCronHistory_sorted:
  assumes run: "updateCronHistory H cron w wls = (r, cron', w')"
    and nopanic: "\<forall>s. r \<noteq> Some (Panic s)"
  shows "sorted_wrt inOrder (History (Status cron')) \<and>
         (r = None \<longrightarrow>
            (\<exists>stored. map_of (crons w') (c_Namespace cron, c_Name cron) = Some stored \<and>
                      History (Status stored) = History (Status cron')))"
proof -
  have "\<exists>m. historyIndex (History (Status cron)) 0 Map.empty = Inr m"
  proof (cases "historyIndex (History (Status cron)) 0 Map.empty")
    case (Inl e)
    with run have "r = Some e" by (simp add: updateCronHistory_def)
    moreover from Inl obtain s where "e = Panic s" using historyIndex_error by blast
    ultimately show ?thesis using nopanic by blast
  qed simp
  then obtain m where m: "historyIndex (History (Status cron)) 0 Map.empty = Inr m" ..
  define f where "f = (\<lambda>workload. workloadToHistory H workload (t_APIVersion (Template (Spec cron)))
      (t_Kind (Template (Spec cron))))"
  obtain fe hs where fw: "foldWorkloads f m (History (Status cron)) wls = (fe, hs)"
    by (cases "foldWorkloads f m (History (Status cron)) wls") auto
  have fe: "fe = None"
  proof (cases fe)
    case (Some e)
    with run m fw have "r = Some e" by (simp add: updateCronHistory_def f_def)
    moreover from Some fw obtain s where "e = Panic s" using foldWorkloads_error by blast
    ultimately show ?thesis using nopanic by blast
  qed simp
  define sorted where "sorted = sort_Slice historyLess hs"
  define cron1 where "cron1 = setHistory cron sorted"
  define lim where "lim = (case HistoryLimit (Spec cron) of None \<Rightarrow> MaxInt | Some l \<Rightarrow> l)"
  have srt: "sorted_wrt inOrder sorted" by (simp add: sorted_def sorted_sort_Slice)
  show ?thesis
  proof (cases "int (length sorted) > lim")
    case False
    with run m fw fe have r1: "(case statusUpdate w cron1 of (r, w1) \<Rightarrow> (r, cron1, w1)) = (r, cron', w')"
      by (simp add: updateCronHistory_def f_def [symmetric] Let_def sorted_def cron1_def lim_def)
    then have c: "cron' = cron1" and su: "statusUpdate w cron1 = (r, w')"
      by (auto split: prod.splits)
    show ?thesis using srt c statusUpdate_stored [of w cron1 w'] su
      by (auto simp: cron1_def setHistory_simps)
  next
    case True
    have lim0: "\<not> lim < 0"
    proof
      assume "lim < 0"
      with True run m fw fe have "r = Some (Panic ''slice bounds out of range'')"
        by (simp add: updateCronHistory_def f_def [symmetric] Let_def sorted_def cron1_def lim_def)
      with nopanic show False by blast
    qed
    define n where "n = nat (int (length sorted) - lim)"
    obtain te c2 w2 where tl: "truncateLoop H cron1 w (take n sorted) = (te, c2, w2)"
      by (metis prod_cases3)
    note fr = truncateLoop_frame [OF tl]
    show ?thesis
    proof (cases te)
      case (Some e)
      with True lim0 run m fw fe tl have "cron' = c2"
        by (simp add: updateCronHistory_def f_def [symmetric] Let_def sorted_def [symmetric]
            cron1_def [symmetric] lim_def [symmetric] n_def [symmetric])
      moreover from Some True lim0 run m fw fe tl have "r = Some e"
        by (simp add: updateCronHistory_def f_def [symmetric] Let_def sorted_def [symmetric]
            cron1_def [symmetric] lim_def [symmetric] n_def [symmetric])
      ultimately show ?thesis using fr srt by (simp add: cron1_def setHistory_simps)
    next
      case None
      define cron3 where "cron3 = setHistory c2 (drop n (History (Status c2)))"
      from None True lim0 run m fw fe tl
      have r1: "(case statusUpdate w2 cron3 of (r, w3) \<Rightarrow> (r, cron3, w3)) = (r, cron', w')"
        by (simp add: updateCronHistory_def f_def [symmetric] Let_def sorted_def [symmetric]
            cron1_def [symmetric] lim_def [symmetric] n_def [symmetric] cron3_def)
      then have c: "cron' = cron3" and su: "statusUpdate w2 cron3 = (r, w')"
        by (auto split: prod.splits)
      have h3: "History (Status cron3) = drop n sorted"
        using fr by (simp add: cron3_def cron1_def setHistory_simps)
      have "sorted_wrt inOrder (drop n sorted)" using srt by (rule sorted_wrt_drop)
      then show ?thesis using c h3 statusUpdate_stored [of w2 cron3 w'] su fr
        by (auto simp: cron3_def cron1_def setHistory_simps)
    qed
  qed
qed

text \<open>The lemma at a history of three entries out of order, two of them created in the
  same second, and one observed workload that is not in the history yet.\<close>

lemma updateCronHistory_sorted_example:
  "fst (updateCronHistory sampleHelpers sortCron (worldWith sortCron []) [mkWorkload ''d'' ''uid-d'' 5000000000 []]) = None \<and>
   sorted_wrt inOrder (History (Status (fst (snd
     (updateCronHistory sampleHelpers sortCron (worldWith sortCron []) [mkWorkload ''d'' ''uid-d'' 5000000000 []]))))) \<and>
   historyNames (Status (fst (snd
     (updateCronHistory sampleHelpers sortCron (worldWith sortCron []) [mkWorkload ''d'' ''uid-d'' 5000000000 []]))))
     = [''d'', ''a'', ''b'', ''c'']"
proof -
  define res where "res = updateCronHistory sampleHelpers sortCron (worldWith sortCron []) [mkWorkload ''d'' ''uid-d'' 5000000000 []]"
  have r: "fst res = None" unfolding res_def by code_simp
  have n: "historyNames (Status (fst (snd res))) = [''d'', ''a'', ''b'', ''c'']"
    unfolding res_def by code_simp
  have "res = (fst res, fst (snd res), snd (snd res))" by simp
  from updateCronHistory_sorted [OF this [unfolded res_def]] r
  have "sorted_wrt inOrder (History (Status (fst (snd res))))" by (simp add: res_def)
  with r n show ?thesis by (simp add: res_def)
qed


lemma key_absent_created: "h_Created h = None \<Longrightarrow> key h = Inl (Panic ''nil pointer dereference'')"
  by (simp add: key_def)

lemma historyIndex_absent_created:
  "h \<in> set hs \<Longrightarrow> h_Created h = None \<Longrightarrow> \<exists>e. historyIndex hs i m = Inl e"
  by (induction hs i m rule: historyIndex.induct) (auto simp: key_def split: sum.splits option.splits)

text \<open>
  C5. The history holds an entry without a created time, which the comparison of the
  sort would place after the entry with one. The fold does not get that far: the key
  closure dereferences the nil created time in the first loop, so \<open>updateCronHistory\<close>
  panics, the cycle ends with that panic, and nothing is stored.
\<close>

theorem updateCronHistory_absent_created_panics:
  "map h_Created (History (Status absentCron)) = [None, Some 7000000000] \<and>
   map (obj_Name \<circ> h_Object) (sort_Slice historyLess (History (Status absentCron))) = [''b'', ''a''] \<and>
   fst (updateCronHistory sampleHelpers absentCron (worldWith absentCron []) [])
     = Some (Panic ''nil pointer dereference'') \<and>
   fst (Reconcile sampleHelpers (worldWith absentCron []) sampleKey 90000000000)
     = Inl (Panic ''nil pointer dereference'') \<and>
   crons (snd (Reconcile sampleHelpers (worldWith absentCron []) sampleKey 90000000000))
     = crons (worldWith absentCron [])"
  by code_simp






section \<open>Deletions that fail, and active references that went missing\<close>

lemma deleteWorkload_get_error:
  assumes "newEmptyWorkload H cron = Inr x"
    and "clientGet w (ref_Namespace ref, ref_Name ref) = Inl e" and "e \<noteq> NotFound"
  shows "deleteWorkload H cron w ref = (Some e, cron, w)"
  using assms by (simp add: deleteWorkload_def IsNotFound_def)

lemma deleteWorkload_found_returns_nil:
  assumes "newEmptyWorkload H cron = Inr x"
    and "clientGet w (ref_Namespace ref, ref_Name ref) = Inr workload"
  shows "fst (deleteWorkload H cron w ref) = None"
    and "fst (snd (deleteWorkload H cron w ref)) = deleteFromActiveList cron (ref_UID ref)"
  using assms by (simp_all add: deleteWorkload_def)

lemma trimMissing_drops_only_with_error:
  "trimMissing H p w known refs = (r, p', w') \<Longrightarrow> r \<noteq> Some NotFound \<Longrightarrow> p' = p \<and> w' = w"
  by (induction refs) (auto simp: IsNotFound_def split: if_splits sum.splits)

lemma trimMissing_nil_keeps:
  "trimMissing H p w known refs = (None, p', w') \<Longrightarrow> p' = p \<and> w' = w"
  using trimMissing_drops_only_with_error [of H p w known refs None p' w'] by simp

text \<open>
  C6. The history limit is 1 and the history holds two entries; the workload of the
  older one is stored, and \<open>client.Delete\<close> fails for it. \<open>updateCronHistory\<close> returns no
  error, records \<open>SuccessfulDelete\<close>, and stores a history without the older entry, while
  its workload is still in the store.
\<close>

theorem updateCronHistory_delete_failure_dropped:
  "deleteFault limitWorld (''default'', ''a'') = Some (APIError ''internal error'') \<and>
   historyNames (Status limitCron) = [''a'', ''b''] \<and>
   fst (updateCronHistory sampleHelpers limitCron limitWorld []) = None \<and>
   map_option historyNames
     (storedStatus (snd (snd (updateCronHistory sampleHelpers limitCron limitWorld []))) sampleKey)
     = Some [''b''] \<and>
   storedWorkloads (snd (snd (updateCronHistory sampleHelpers limitCron limitWorld [])))
     = [(''default'', ''a'')] \<and>
   events (snd (snd (updateCronHistory sampleHelpers limitCron limitWorld [])))
     = [Event EventTypeNormal ''SuccessfulDelete'']"
  by code_simp

text \<open>
  C2. The policy is Replace, one workload is active and running, a firing is due, and
  \<open>client.Delete\<close> fails for the active workload. The cycle returns no error: it records
  \<open>SuccessfulDelete\<close>, creates the new workload, and stores an active list that holds the
  new reference only, while the old workload is still in the store.
\<close>

theorem Reconcile_replace_delete_failure_proceeds:
  "deleteFault replaceWorld (''default'', ''a'') = Some (APIError ''internal error'') \<and>
   activeNames (Status replaceCron) = [''a''] \<and>
   fst (Reconcile sampleHelpers replaceWorld sampleKey 90000000000) = Inr 30000000000 \<and>
   storedWorkloads (snd (Reconcile sampleHelpers replaceWorld sampleKey 90000000000))
     = [(''default'', ''a''), (''default'', ''nightly-60'')] \<and>
   map_option activeNames
     (storedStatus (snd (Reconcile sampleHelpers replaceWorld sampleKey 90000000000)) sampleKey)
     = Some [''nightly-60''] \<and>
   events (snd (Reconcile sampleHelpers replaceWorld sampleKey 90000000000))
     = [Event EventTypeNormal ''SuccessfulDelete'', Event EventTypeNormal ''SuccessfulCreate'']"
  by code_simp

text \<open>
  C3. The active list holds one reference and its workload is not in the store. The
  cycle records \<open>MissingWorkload\<close> and returns the not-found error of the direct fetch, so
  it ends before the status is written: the stored active list still holds the
  reference, and the next cycle starts from the same stored objects.
\<close>

theorem Reconcile_missing_active_not_removed:
  "storedWorkloads missingWorld = [] \<and>
   activeNames (Status missingCron) = [''a''] \<and>
   fst (Reconcile sampleHelpers missingWorld sampleKey 90000000000) = Inl NotFound \<and>
   map_option activeNames
     (storedStatus (snd (Reconcile sampleHelpers missingWorld sampleKey 90000000000)) sampleKey)
     = Some [''a''] \<and>
   crons (snd (Reconcile sampleHelpers missingWorld sampleKey 90000000000)) = crons missingWorld \<and>
   workloads (snd (Reconcile sampleHelpers missingWorld sampleKey 90000000000)) = workloads missingWorld \<and>
   events (snd (Reconcile sampleHelpers missingWorld sampleKey 90000000000))
     = [Event EventTypeNormal ''MissingWorkload'']"
  by code_simp

section \<open>Properties of scheduling\<close>

text \<open>
  C9. When the schedule expression does not parse, \<open>scheduleNextIfPossible\<close> records the
  warning \<open>InvalidSchedule\<close> and returns neither an error nor a wakeup hint; it leaves the
  cron, the stored workloads and the stored crons as they are.
\<close>

theorem scheduleNextIfPossible_invalid_schedule:
  assumes "ParseStandard H (Schedule (Spec cron)) = Inl e"
  shows "\<exists>w'. scheduleNextIfPossible H cron w now = (Inr None, cron, w') \<and>
           events w' = events w @ [Event EventTypeWarning ''InvalidSchedule''] \<and>
           workloads w' = workloads w \<and> crons w' = crons w"
  using assms by (simp add: scheduleNextIfPossible_def recordEvent_def)

text \<open>The theorem at the sample cron with an expression of four fields.\<close>

theorem scheduleNextIfPossible_invalid_schedule_witness:
  "ParseStandard sampleHelpers (Schedule (Spec invalidCron)) = Inl (HelperError ''invalid schedule'') \<and>
   (\<exists>w'. scheduleNextIfPossible sampleHelpers invalidCron (worldWith invalidCron []) 90000000000
            = (Inr None, invalidCron, w') \<and>
          events w' = [Event EventTypeWarning ''InvalidSchedule''] \<and>
          workloads w' = []) \<and>
   fst (Reconcile sampleHelpers (worldWith invalidCron []) sampleKey 90000000000) = Inr 0 \<and>
   workloads (snd (Reconcile sampleHelpers (worldWith invalidCron []) sampleKey 90000000000)) = []"
proof -
  have p: "ParseStandard sampleHelpers (Schedule (Spec invalidCron)) = Inl (HelperError ''invalid schedule'')"
    by (simp add: sampleHelpers_def invalidCron_def sampleCron_def)
  have r: "fst (Reconcile sampleHelpers (worldWith invalidCron []) sampleKey 90000000000) = Inr 0"
    by code_simp
  have n: "workloads (snd (Reconcile sampleHelpers (worldWith invalidCron []) sampleKey 90000000000)) = []"
    by code_simp
  from scheduleNextIfPossible_invalid_schedule
         [OF p, of "worldWith invalidCron []" 90000000000]
  show ?thesis using p r n by (auto simp: worldWith_def)
qed

section \<open>Cycles that do not fire\<close>




























section \<open>Properties of the created workload\<close>

lemma clientCreate_error_world: "fst (clientCreate w now obj) = Inl e \<Longrightarrow> snd (clientCreate w now obj) = w"
  by (auto simp: clientCreate_def Let_def split: option.splits if_splits)

lemma clientCreate_name:
  "clientCreate w now obj = (Inr created, w') \<Longrightarrow> w_GenerateName obj = [] \<Longrightarrow>
     w_Name created = w_Name obj \<and> w_GenerateName created = []"
  by (auto simp: clientCreate_def Let_def split: option.splits if_splits)

text \<open>
  C10. Every workload that \<open>newWorkloadFromTemplate\<close> builds has an empty generateName,
  whatever the template gives. Its name is the template's name when that is not empty,
  and else the default job name, which the helper computes from the cron and the firing
  time. When the store accepts the workload, the stored object has that very name: the
  server adds no suffix.
\<close>

theorem newWorkloadFromTemplate_name:
  assumes "newWorkloadFromTemplate H cron w scheduleTime = (Inr wl, cron', w')"
  shows "w_GenerateName wl = [] \<and>
         (\<exists>w0. newEmptyWorkload H cron = Inr w0 \<and>
               w_Name wl = (if w_Name w0 = [] then getDefaultJobName H cron scheduleTime else w_Name w0)) \<and>
         (\<forall>world now created world'.
            clientCreate world now wl = (Inr created, world') \<longrightarrow>
              w_Name created = w_Name wl \<and> w_GenerateName created = [])"
proof -
  from assms obtain w0 where w0: "newEmptyWorkload H cron = Inr w0"
    by (auto simp: newWorkloadFromTemplate_def split: sum.splits)
  from assms w0 have g: "w_GenerateName wl = []"
    by (auto simp: newWorkloadFromTemplate_def Let_def split: sum.splits if_splits)
  from assms w0 have n: "w_Name wl = (if w_Name w0 = [] then getDefaultJobName H cron scheduleTime else w_Name w0)"
    by (auto simp: newWorkloadFromTemplate_def Let_def split: sum.splits if_splits)
  from g have "\<forall>world now created world'.
      clientCreate world now wl = (Inr created, world') \<longrightarrow>
        w_Name created = w_Name wl \<and> w_GenerateName created = []"
    using clientCreate_name by blast
  with w0 g n show ?thesis by blast
qed

text \<open>The theorem at the sample cron, whose template has the generateName \<open>train-\<close> and
  no name, for the firing at 60 s.\<close>

theorem newWorkloadFromTemplate_name_witness:
  "w_GenerateName sampleTemplate = ''train-'' \<and>
   fst (newWorkloadFromTemplate sampleHelpers sampleCron (worldWith sampleCron []) 60000000000) = Inr builtWorkload \<and>
   w_GenerateName builtWorkload = [] \<and> w_Name builtWorkload = ''nightly-60''"
proof -
  have r: "newWorkloadFromTemplate sampleHelpers sampleCron (worldWith sampleCron []) 60000000000
      = (Inr builtWorkload, sampleCron, worldWith sampleCron [])"
    by (simp add: newWorkloadFromTemplate_def sampleHelpers_def spec_newEmptyWorkload_def
        spec_getDefaultJobName_def sampleCron_def sampleTemplate_def builtWorkload_def
        Unix_def formatInt_def digitsOf.simps Let_def)
  have t: "w_GenerateName sampleTemplate = ''train-''" by (simp add: sampleTemplate_def)
  have n: "w_Name builtWorkload = ''nightly-60''" by (simp add: builtWorkload_def)
  from newWorkloadFromTemplate_name [OF r] r t n show ?thesis by simp
qed

section \<open>Creation that fails with already-exists\<close>

lemma newWorkloadFromTemplate_status:
  "newWorkloadFromTemplate H cron w t = (r, cron', w') \<Longrightarrow> Status cron' = Status cron"
  by (auto simp: newWorkloadFromTemplate_def setPolicy_def Let_def split: sum.splits if_splits)

text \<open>
  C1, as amended. When \<open>client.Create\<close> fails with already-exists, the cycle checks
  whether the workload is in the active list, and in both cases it returns the
  already-exists error: nothing is appended to the active list, the last-fired time
  stays, and no status is written. When the workload is in the active list nothing
  more happens; when it is not, the warning \<open>FailedCreate\<close> is recorded.
\<close>

theorem scheduleNextIfPossible_already_exists:
  assumes parse: "ParseStandard H (Schedule (Spec cron)) = Inr schedule"
    and due: "getNextScheduleTime H cron now schedule = (evs, Inr (Some scheduledTime))"
    and fresh: "\<not> Time_Equal (LastScheduleTime (Status cron)) (Some scheduledTime)"
    and admitted: "\<not> (ConcurrencyPolicy (Spec cron) = ConcurrentPolicyForbid \<and> length (Active (Status cron)) > 0)"
    and replaced: "(if ConcurrencyPolicy (Spec cron) = ConcurrentPolicyReplace
                    then replaceLoop H cron (w\<lparr>events := events w @ evs\<rparr>) (Active (Status cron))
                    else (None, cron, w\<lparr>events := events w @ evs\<rparr>)) = (None, cron2, w2)"
    and built: "newWorkloadFromTemplate H cron2 w2 scheduledTime = (Inr workloadToCreate, cron3, w3)"
    and exists: "fst (clientCreate w3 now workloadToCreate) = Inl AlreadyExists"
  shows "scheduleNextIfPossible H cron w now =
           (Inl AlreadyExists, cron3,
            if inActiveList H (Active (Status cron3)) workloadToCreate then w3
            else recordEvent w3 EventTypeWarning ''FailedCreate'') \<and>
         Status cron3 = Status cron2"
proof -
  from exists have c: "clientCreate w3 now workloadToCreate = (Inl AlreadyExists, w3)"
    using clientCreate_error_world [of w3 now workloadToCreate AlreadyExists]
    by (cases "clientCreate w3 now workloadToCreate") simp
  have "createAndRecord H cron3 w3 now schedule scheduledTime workloadToCreate =
          (Inl AlreadyExists, cron3,
           if inActiveList H (Active (Status cron3)) workloadToCreate then w3
           else recordEvent w3 EventTypeWarning ''FailedCreate'')"
    using c by (simp add: createAndRecord_def IsAlreadyExists_def)
  moreover have "scheduleNextIfPossible H cron w now =
      createAndRecord H cron3 w3 now schedule scheduledTime workloadToCreate"
  proof -
    from admitted
    have gate: "(ConcurrencyPolicy (Spec cron) = ConcurrentPolicyForbid \<and> 0 < length (Active (Status cron))) = False"
      by simp
    show ?thesis
      unfolding scheduleNextIfPossible_def Let_def
      by (simp only: parse due fresh gate replaced built sum.case prod.case option.case if_False)
  qed
  ultimately show ?thesis using newWorkloadFromTemplate_status [OF built] by simp
qed

text \<open>The theorem at a cron whose template names its workload \<open>fixed\<close> and carries the
  UID of the stored workload of that name, which is in the active list; the firing at
  120 s is due.\<close>

theorem scheduleNextIfPossible_already_exists_witness:
  "fst (clientCreate (recordEvent trackedWorld EventTypeNormal ''OverridePolicy'') 150000000000 trackedWorkload)
     = Inl AlreadyExists \<and>
   scheduleNextIfPossible sampleHelpers trackedCron trackedWorld 150000000000 =
     (Inl AlreadyExists, setPolicy trackedCron ConcurrentPolicyForbid,
      recordEvent trackedWorld EventTypeNormal ''OverridePolicy'')"
proof -
  let ?w1 = "recordEvent trackedWorld EventTypeNormal ''OverridePolicy''"
  have parse: "ParseStandard sampleHelpers (Schedule (Spec trackedCron)) = Inr everyMinute"
    by (simp add: sampleHelpers_def trackedCron_def cronWith_def sampleCron_def)
  have due: "getNextScheduleTime sampleHelpers trackedCron 150000000000 everyMinute
      = ([], Inr (Some 120000000000))"
    by code_simp
  have fresh: "\<not> Time_Equal (LastScheduleTime (Status trackedCron)) (Some 120000000000)"
    by (simp add: trackedCron_def cronWith_def)
  have admitted: "\<not> (ConcurrencyPolicy (Spec trackedCron) = ConcurrentPolicyForbid
      \<and> length (Active (Status trackedCron)) > 0)"
    by (simp add: trackedCron_def cronWith_def sampleCron_def)
  have replaced: "(if ConcurrencyPolicy (Spec trackedCron) = ConcurrentPolicyReplace
        then replaceLoop sampleHelpers trackedCron (trackedWorld\<lparr>events := events trackedWorld @ []\<rparr>)
               (Active (Status trackedCron))
        else (None, trackedCron, trackedWorld\<lparr>events := events trackedWorld @ []\<rparr>))
      = (None, trackedCron, trackedWorld)"
    by (simp add: trackedCron_def cronWith_def sampleCron_def)
  have built: "newWorkloadFromTemplate sampleHelpers trackedCron trackedWorld 120000000000
      = (Inr trackedWorkload, setPolicy trackedCron ConcurrentPolicyForbid, ?w1)"
    by (simp add: newWorkloadFromTemplate_def sampleHelpers_def spec_newEmptyWorkload_def
        trackedCron_def trackedWorkload_def cronWith_def sampleCron_def sampleTemplate_def
        setPolicy_def Let_def)
  have exists: "fst (clientCreate ?w1 150000000000 trackedWorkload) = Inl AlreadyExists"
    by code_simp
  have tracked: "inActiveList sampleHelpers
      (Active (Status (setPolicy trackedCron ConcurrentPolicyForbid))) trackedWorkload"
    by code_simp
  from scheduleNextIfPossible_already_exists
         [OF parse due fresh admitted replaced built exists] tracked exists
  show ?thesis by simp
qed

text \<open>The claim as stated fails: the workload to create is in the active list, creation
  fails with already-exists, and the cycle returns that error.\<close>

theorem Reconcile_tracked_already_exists_is_error:
  "inActiveList sampleHelpers (Active (Status trackedCron)) trackedWorkload \<and>
   fst (clientCreate trackedWorld 150000000000 trackedWorkload) = Inl AlreadyExists \<and>
   fst (scheduleNextIfPossible sampleHelpers trackedCron trackedWorld 150000000000) = Inl AlreadyExists \<and>
   fst (Reconcile sampleHelpers trackedWorld sampleKey 150000000000) = Inl AlreadyExists"
  by code_simp

section \<open>A template that names its workload\<close>

text \<open>
  C8. The template names its workload and the declared policy is Allow. The firing at
  60 s creates the workload. At the next due time, 120 s, that workload is active and
  running: the cycle does not skip as under Forbid (no \<open>AlreadyActive\<close> event, no
  wakeup hint) but calls \<open>client.Create\<close> again and returns its already-exists error.
  The stored policy is still Allow. Under a declared Replace the second cycle deletes
  the running workload and creates its successor.
\<close>

theorem Reconcile_fixed_name_not_forbid:
  "fst (fixedCycle1 ConcurrentPolicyAllow) = Inr 30000000000 \<and>
   map_option activeUIDs (storedStatus (snd (fixedCycle1 ConcurrentPolicyAllow)) sampleKey) = Some [''uid-0''] \<and>
   storedPolicy (snd (fixedCycle1 ConcurrentPolicyAllow)) sampleKey = Some ConcurrentPolicyAllow \<and>
   fst (fixedCycle2 ConcurrentPolicyAllow) = Inl AlreadyExists \<and>
   events (snd (fixedCycle2 ConcurrentPolicyAllow)) =
     [Event EventTypeNormal ''OverridePolicy'', Event EventTypeNormal ''SuccessfulCreate'',
      Event EventTypeNormal ''OverridePolicy'', Event EventTypeWarning ''FailedCreate''] \<and>
   storedPolicy (snd (fixedCycle2 ConcurrentPolicyAllow)) sampleKey = Some ConcurrentPolicyAllow \<and>
   fst (fixedCycle2 ConcurrentPolicyReplace) = Inr 30000000000 \<and>
   events (snd (fixedCycle2 ConcurrentPolicyReplace)) =
     [Event EventTypeNormal ''OverridePolicy'', Event EventTypeNormal ''SuccessfulCreate'',
      Event EventTypeNormal ''SuccessfulDelete'',
      Event EventTypeNormal ''OverridePolicy'', Event EventTypeNormal ''SuccessfulCreate''] \<and>
   storedUIDs (snd (fixedCycle1 ConcurrentPolicyReplace)) = [''uid-0''] \<and>
   storedUIDs (snd (fixedCycle2 ConcurrentPolicyReplace)) = [''uid-1''] \<and>
   map_option activeUIDs (storedStatus (snd (fixedCycle2 ConcurrentPolicyReplace)) sampleKey) = Some [''uid-1''] \<and>
   storedPolicy (snd (fixedCycle2 ConcurrentPolicyReplace)) sampleKey = Some ConcurrentPolicyReplace"
  by code_simp

end
